theory Spec2Isabelle
  imports Main "HOL-Library.Word"
begin

section \<open>Connection configuration (package sql)\<close>

text \<open>
  \<^verbatim>\<open>ConnConfig\<close> is the struct of connection parameters. Go's \<^verbatim>\<open>int\<close> fields are
  only compared with zero and overwritten with constants, so they are integers here.
\<close>

record ConnConfig =
  Host :: string
  Port :: int
  User :: string
  Password :: string
  Database :: string
  MaxIdleConns :: int
  MaxOpenConns :: int
  ConnMaxLifetimeSec :: int
  DbLog :: bool
  Dialect :: string

text \<open>The outcome of a Go call: a normal return, or an unwinding panic with its value.\<close>

datatype 'a result = Ret 'a | Panic string

definition DefaultConfig :: ConnConfig where
  "DefaultConfig =
     \<lparr>Host = [], Port = 5432, User = [], Password = [], Database = [],
      MaxIdleConns = 5, MaxOpenConns = 20, ConnMaxLifetimeSec = 3600,
      DbLog = False, Dialect = ''mysql''\<rparr>"

text \<open>
  \<^verbatim>\<open>PatchDefaultConfig\<close> writes through the pointer it is given and panics last, when
  the database name is empty: the model returns the outcome and the patched struct.
\<close>

definition PatchDefaultConfig :: "ConnConfig \<Rightarrow> unit result \<times> ConnConfig" where
  "PatchDefaultConfig config =
     (let c1 = (if Port config = 0 then config\<lparr>Port := Port DefaultConfig\<rparr> else config);
          c2 = (if MaxIdleConns c1 = 0 then c1\<lparr>MaxIdleConns := MaxIdleConns DefaultConfig\<rparr> else c1);
          c3 = (if MaxOpenConns c2 = 0 then c2\<lparr>MaxOpenConns := MaxOpenConns DefaultConfig\<rparr> else c2);
          c4 = (if ConnMaxLifetimeSec c3 = 0
                then c3\<lparr>ConnMaxLifetimeSec := ConnMaxLifetimeSec DefaultConfig\<rparr> else c3);
          c5 = (if Dialect c4 = [] then c4\<lparr>Dialect := Dialect DefaultConfig\<rparr> else c4)
      in if Database c5 = [] then (Panic ''database must be set'', c5) else (Ret (), c5))"

section \<open>Driver handles, contexts and carriers (package sql)\<close>

text \<open>
  A Go \<^verbatim>\<open>error\<close> is a string here, \<^verbatim>\<open>nil\<close> is \<open>None\<close>.
\<close>

type_synonym err = string

definition ErrCommitWithoutTransaction :: err where
  "ErrCommitWithoutTransaction = ''not in transaction, can't commit''"

definition ErrNeverPropInTransaction :: err where
  "ErrNeverPropInTransaction = ''never propagation must not in transaction''"

definition ErrMandatoryPropWithoutTransaction :: err where
  "ErrMandatoryPropWithoutTransaction = ''mandatory propagation must in transaction''"

text \<open>
  A \<^verbatim>\<open>context.Context\<close> is an interface value. The engine only asks whether its
  dynamic type is \<^verbatim>\<open>*transactionContext\<close>: \<open>CarrierRef a\<close> is such a pointer, to the
  carrier stored at address \<open>a\<close>; \<open>Plain n\<close> is any other context.
\<close>

datatype Context = Plain nat | CarrierRef nat

text \<open>
  \<^verbatim>\<open>Statement.ConnPool\<close> of a handle is the connection pool itself, or one transaction
  of the driver; only the latter implements \<^verbatim>\<open>gorm.TxCommitter\<close>.
\<close>

datatype conn_pool = SqlDB | SqlTx nat

text \<open>
  The part of \<^verbatim>\<open>gorm.DB\<close> the engine reads: the connection pool of its statement, its
  \<^verbatim>\<open>Error\<close> field, the configuration flag \<^verbatim>\<open>DisableNestedTransaction\<close> and the
  context the handle is bound to.
\<close>

record gorm_db =
  ConnPool :: conn_pool
  Error :: "err option"
  DisableNestedTransaction :: bool
  StmtContext :: Context

definition WithContext :: "Context \<Rightarrow> gorm_db \<Rightarrow> gorm_db" where
  "WithContext c db = db\<lparr>StmtContext := c\<rparr>"

record transactionContext =
  ctx :: Context
  tx :: "gorm_db option"
  parent :: "nat option"

text \<open>
  Driver calls are recorded in the order they are issued. \<open>OpExec\<close> is a statement of the
  business function; the engine itself never issues one.
\<close>

datatype op =
    OpBegin gorm_db
  | OpCommit gorm_db
  | OpRollback gorm_db
  | OpSavePoint gorm_db string
  | OpRollbackTo gorm_db string
  | OpExec gorm_db string

text \<open>
  The store of carriers (a carrier's address is its index, a new carrier goes to the end)
  and the driver calls issued so far.
\<close>

record world =
  heap :: "transactionContext list"
  oplog :: "op list"

text \<open>
  The driver and the factory are outside the repository and are taken as a parameter:
  the cached handle of the factory, and what \<^verbatim>\<open>Begin\<close>, \<^verbatim>\<open>Commit\<close> and
  \<^verbatim>\<open>SavePoint\<close> answer, given the calls issued before. \<^verbatim>\<open>Begin\<close> answers with a
  handle, the other two with the \<^verbatim>\<open>Error\<close> field of the handle they return. What
  \<^verbatim>\<open>Rollback\<close> and \<^verbatim>\<open>RollbackTo\<close> answer is dropped by the engine. A handle is a
  value: the connection pool of the handle a carrier holds is what \<^verbatim>\<open>Begin\<close> put
  there, also after \<^verbatim>\<open>Commit\<close> and \<^verbatim>\<open>Rollback\<close>.
\<close>

record driver =
  origin :: gorm_db
  begin_tx :: "op list \<Rightarrow> gorm_db \<Rightarrow> gorm_db"
  commit_err :: "op list \<Rightarrow> gorm_db \<Rightarrow> err option"
  savepoint_err :: "op list \<Rightarrow> gorm_db \<Rightarrow> string \<Rightarrow> err option"

type_synonym bizFn = "Context \<Rightarrow> gorm_db \<Rightarrow> world \<Rightarrow> err option result \<times> world"

definition nil_deref :: string where
  "nil_deref = ''invalid memory address or nil pointer dereference''"

definition lookup :: "world \<Rightarrow> nat \<Rightarrow> transactionContext option" where
  "lookup w a = (if a < length (heap w) then Some (heap w ! a) else None)"

definition alloc :: "transactionContext \<Rightarrow> world \<Rightarrow> nat \<times> world" where
  "alloc c w = (length (heap w), w\<lparr>heap := heap w @ [c]\<rparr>)"

definition emit :: "op \<Rightarrow> world \<Rightarrow> world" where
  "emit e w = w\<lparr>oplog := oplog w @ [e]\<rparr>"

definition IsRoot :: "transactionContext \<Rightarrow> bool" where
  "IsRoot c = (parent c = None)"

definition TxError :: "transactionContext \<Rightarrow> err option" where
  "TxError c = (case tx c of Some db \<Rightarrow> Error db | None \<Rightarrow> None)"

definition InTransaction :: "transactionContext \<Rightarrow> bool" where
  "InTransaction c =
     (case tx c of
        None \<Rightarrow> False
      | Some db \<Rightarrow> (case ConnPool db of SqlTx i \<Rightarrow> True | SqlDB \<Rightarrow> False))"

text \<open>
  \<^verbatim>\<open>Session\<close> allocates the child carrier. A carrier without a handle makes
  \<^verbatim>\<open>c.tx.WithContext\<close> dereference \<^verbatim>\<open>nil\<close>.
\<close>

definition Session :: "nat \<Rightarrow> world \<Rightarrow> nat result \<times> world" where
  "Session a w =
     (case lookup w a of
        None \<Rightarrow> (Panic nil_deref, w)
      | Some c \<Rightarrow>
          (case tx c of
             None \<Rightarrow> (Panic nil_deref, w)
           | Some db \<Rightarrow>
               (let (s, w') = alloc \<lparr>ctx = ctx c, tx = Some (WithContext (ctx c) db),
                                     parent = Some a\<rparr> w
                in (Ret s, w'))))"

definition Rollback :: "nat \<Rightarrow> world \<Rightarrow> unit result \<times> world" where
  "Rollback a w =
     (case lookup w a of
        None \<Rightarrow> (Panic nil_deref, w)
      | Some c \<Rightarrow>
          if InTransaction c \<and> IsRoot c
          then (case tx c of
                  Some db \<Rightarrow> (Ret (), emit (OpRollback db) w)
                | None \<Rightarrow> (Panic nil_deref, w))
          else (Ret (), w))"

definition Commit :: "driver \<Rightarrow> nat \<Rightarrow> world \<Rightarrow> err option result \<times> world" where
  "Commit drv a w =
     (case lookup w a of
        None \<Rightarrow> (Panic nil_deref, w)
      | Some c \<Rightarrow>
          if \<not> InTransaction c then (Ret (Some ErrCommitWithoutTransaction), w)
          else if IsRoot c
          then (case tx c of
                  Some db \<Rightarrow> (Ret (commit_err drv (oplog w) db), emit (OpCommit db) w)
                | None \<Rightarrow> (Panic nil_deref, w))
          else (Ret None, w))"

section \<open>The transaction manager (package sql)\<close>

definition getPureDB :: "driver \<Rightarrow> Context \<Rightarrow> gorm_db" where
  "getPureDB drv c = WithContext c (origin drv)"

definition GetOriginDB :: "driver \<Rightarrow> gorm_db" where
  "GetOriginDB drv = origin drv"

definition GetDB :: "driver \<Rightarrow> Context \<Rightarrow> world \<Rightarrow> gorm_db result" where
  "GetDB drv c w =
     (case c of
        Plain n \<Rightarrow> Ret (getPureDB drv c)
      | CarrierRef a \<Rightarrow>
          (case lookup w a of
             None \<Rightarrow> Panic nil_deref
           | Some txCtx \<Rightarrow>
               (case tx txCtx of
                  Some db \<Rightarrow> Ret db
                | None \<Rightarrow> Ret (getPureDB drv c))))"

text \<open>
  The savepoint of a nested frame is named \<^verbatim>\<open>fmt.Sprintf("sp%p", bizFn)\<close>: the letters
  \<^verbatim>\<open>sp\<close> and the address of the business function, as \<^verbatim>\<open>%p\<close> prints it. The
  address is the argument \<open>fp\<close> of the engine.
\<close>

definition hex_digit :: "nat \<Rightarrow> char" where
  "hex_digit d = ''0123456789abcdef'' ! (d mod 16)"

fun hex :: "nat \<Rightarrow> string" where
  "hex n = (if n < 16 then [hex_digit n] else hex (n div 16) @ [hex_digit (n mod 16)])"

declare hex.simps [simp del]

definition sp_name :: "nat \<Rightarrow> string" where
  "sp_name fp = ''sp0x'' @ hex fp"

text \<open>
  \<^verbatim>\<open>bizFn(txCtx.Session(), txCtx.tx)\<close>, the call every joining frame makes on the
  carrier at address \<open>a\<close>.
\<close>

definition joinAmbient :: "nat \<Rightarrow> bizFn \<Rightarrow> world \<Rightarrow> err option result \<times> world" where
  "joinAmbient a bizFn w =
     (case Session a w of
        (Panic p, w') \<Rightarrow> (Panic p, w')
      | (Ret s, w') \<Rightarrow>
          (case lookup w' a of
             None \<Rightarrow> (Panic nil_deref, w')
           | Some c \<Rightarrow>
               (case tx c of
                  None \<Rightarrow> (Panic nil_deref, w')
                | Some db \<Rightarrow> bizFn (CarrierRef s) db w')))"

text \<open>
  The deferred function of a root frame,
  \<^verbatim>\<open>if panicked || err != nil { txCtx.Rollback() }\<close>, run on the outcome of the body:
  \<^verbatim>\<open>panicked\<close> is still true exactly when the body unwinds.
\<close>

definition deferredRollback ::
  "nat \<Rightarrow> err option result \<times> world \<Rightarrow> err option result \<times> world" where
  "deferredRollback a rw =
     (case rw of
        (Ret None, w) \<Rightarrow> (Ret None, w)
      | (r, w) \<Rightarrow>
          (case Rollback a w of
             (Ret u, w') \<Rightarrow> (r, w')
           | (Panic p, w') \<Rightarrow> (Panic p, w')))"

text \<open>
  The statements from \<^verbatim>\<open>defer\<close> to \<^verbatim>\<open>return err\<close>, the same text in
  \<^verbatim>\<open>withRequiredPropagation\<close> and \<^verbatim>\<open>withRequiresNewPropagation\<close>, for the carrier at
  address \<open>a\<close> whose \<^verbatim>\<open>tx\<close> has just been set to \<open>txdb\<close>.
\<close>

definition rootFrame ::
  "driver \<Rightarrow> nat \<Rightarrow> gorm_db \<Rightarrow> bizFn \<Rightarrow> world \<Rightarrow> err option result \<times> world" where
  "rootFrame drv a txdb bizFn w =
     deferredRollback a
       (case (case lookup w a of
                None \<Rightarrow> (Panic nil_deref, w)
              | Some txCtx \<Rightarrow>
                  (case TxError txCtx of
                     Some e \<Rightarrow> (Ret (Some e), w)
                   | None \<Rightarrow> bizFn (CarrierRef a) txdb w)) of
          (Ret None, w1) \<Rightarrow> Commit drv a w1
        | (r, w1) \<Rightarrow> (r, w1))"

text \<open>
  A root frame starts with \<^verbatim>\<open>db.Begin()\<close> on the handle the factory binds to
  \<open>pureCtx\<close>. \<open>beginFresh\<close> is
  \<^verbatim>\<open>txCtx = &transactionContext{ctx: ctx, tx: db.Begin()}\<close>, a new carrier;
  \<open>beginReuse\<close> is \<^verbatim>\<open>txCtx.tx = db.Begin()\<close>, on the carrier the context already is.
  Both give the new handle, the address of the frame's carrier and the world.
\<close>

definition beginFresh :: "driver \<Rightarrow> Context \<Rightarrow> Context \<Rightarrow> world \<Rightarrow> gorm_db \<times> nat \<times> world" where
  "beginFresh drv pureCtx c w =
     (let db = getPureDB drv pureCtx;
          txdb = begin_tx drv (oplog w) db;
          (a, w1) = alloc \<lparr>ctx = c, tx = Some txdb, parent = None\<rparr> (emit (OpBegin db) w)
      in (txdb, a, w1))"

definition beginReuse ::
  "driver \<Rightarrow> Context \<Rightarrow> nat \<Rightarrow> transactionContext \<Rightarrow> world \<Rightarrow> gorm_db \<times> nat \<times> world" where
  "beginReuse drv c a txCtx w =
     (let db = getPureDB drv c;
          txdb = begin_tx drv (oplog w) db;
          w0 = emit (OpBegin db) w
      in (txdb, a, w0\<lparr>heap := (heap w0)[a := txCtx\<lparr>tx := Some txdb\<rparr>]\<rparr>))"

definition withRequiredPropagation ::
  "driver \<Rightarrow> Context \<Rightarrow> bizFn \<Rightarrow> world \<Rightarrow> err option result \<times> world" where
  "withRequiredPropagation drv c bizFn w =
     (case c of
        Plain n \<Rightarrow>
          (let (txdb, a, w1) = beginFresh drv c c w in rootFrame drv a txdb bizFn w1)
      | CarrierRef a \<Rightarrow>
          (case lookup w a of
             None \<Rightarrow> (Panic nil_deref, w)
           | Some txCtx \<Rightarrow>
               if InTransaction txCtx then joinAmbient a bizFn w
               else
                 (let (txdb, a', w1) = beginReuse drv c a txCtx w
                  in rootFrame drv a' txdb bizFn w1)))"

definition withSupportsPropagation ::
  "driver \<Rightarrow> Context \<Rightarrow> bizFn \<Rightarrow> world \<Rightarrow> err option result \<times> world" where
  "withSupportsPropagation drv c bizFn w =
     (case c of
        Plain n \<Rightarrow> bizFn c (getPureDB drv c) w
      | CarrierRef a \<Rightarrow>
          (case lookup w a of
             None \<Rightarrow> (Panic nil_deref, w)
           | Some txCtx \<Rightarrow>
               if InTransaction txCtx then joinAmbient a bizFn w
               else bizFn c (getPureDB drv c) w))"

definition withMandatoryPropagation ::
  "driver \<Rightarrow> Context \<Rightarrow> bizFn \<Rightarrow> world \<Rightarrow> err option result \<times> world" where
  "withMandatoryPropagation drv c bizFn w =
     (case c of
        Plain n \<Rightarrow> (Ret (Some ErrMandatoryPropWithoutTransaction), w)
      | CarrierRef a \<Rightarrow>
          (case lookup w a of
             None \<Rightarrow> (Panic nil_deref, w)
           | Some txCtx \<Rightarrow>
               if InTransaction txCtx then joinAmbient a bizFn w
               else (Ret (Some ErrMandatoryPropWithoutTransaction), w)))"

text \<open>
  \<^verbatim>\<open>pureCtx\<close> of a suspending frame: the context a carrier wraps, or the context
  itself when it is no carrier. There is none when the pointer is \<^verbatim>\<open>nil\<close>.
\<close>

definition pureCtxOf :: "world \<Rightarrow> Context \<Rightarrow> Context option" where
  "pureCtxOf w c =
     (case c of
        Plain n \<Rightarrow> Some c
      | CarrierRef a \<Rightarrow> map_option ctx (lookup w a))"

definition withRequiresNewPropagation ::
  "driver \<Rightarrow> Context \<Rightarrow> bizFn \<Rightarrow> world \<Rightarrow> err option result \<times> world" where
  "withRequiresNewPropagation drv c bizFn w =
     (case pureCtxOf w c of
        None \<Rightarrow> (Panic nil_deref, w)
      | Some pureCtx \<Rightarrow>
          (let (txdb, a, w1) = beginFresh drv pureCtx c w in rootFrame drv a txdb bizFn w1))"

definition withNotSupportedPropagation ::
  "driver \<Rightarrow> Context \<Rightarrow> bizFn \<Rightarrow> world \<Rightarrow> err option result \<times> world" where
  "withNotSupportedPropagation drv c bizFn w =
     (case pureCtxOf w c of
        None \<Rightarrow> (Panic nil_deref, w)
      | Some pureCtx \<Rightarrow> bizFn pureCtx (getPureDB drv pureCtx) w)"

text \<open>
  The deferred function of a nested frame,
  \<^verbatim>\<open>if panicked || err != nil { db.RollbackTo(name) }\<close>.
\<close>

definition deferredRollbackTo ::
  "gorm_db \<Rightarrow> string \<Rightarrow> err option result \<times> world \<Rightarrow> err option result \<times> world" where
  "deferredRollbackTo db name rw =
     (case rw of
        (Ret None, w) \<Rightarrow> (Ret None, w)
      | (r, w) \<Rightarrow> (r, emit (OpRollbackTo db name) w))"

definition withNestedPropagation ::
  "driver \<Rightarrow> Context \<Rightarrow> nat \<Rightarrow> bizFn \<Rightarrow> world \<Rightarrow> err option result \<times> world" where
  "withNestedPropagation drv c fp bizFn w =
     (case c of
        Plain n \<Rightarrow> withRequiredPropagation drv c bizFn w
      | CarrierRef a \<Rightarrow>
          (case lookup w a of
             None \<Rightarrow> (Panic nil_deref, w)
           | Some txCtx \<Rightarrow>
               if InTransaction txCtx then
                 (case tx txCtx of
                    None \<Rightarrow> (Panic nil_deref, w)
                  | Some db \<Rightarrow>
                      if \<not> DisableNestedTransaction db then
                        (let err = savepoint_err drv (oplog w) db (sp_name fp);
                             w1 = emit (OpSavePoint db (sp_name fp)) w
                         in deferredRollbackTo db (sp_name fp)
                              (case err of
                                 None \<Rightarrow> joinAmbient a bizFn w1
                               | Some e \<Rightarrow> (Ret (Some e), w1)))
                      else joinAmbient a bizFn w)
               else withRequiredPropagation drv c bizFn w))"

definition withNeverPropagation ::
  "driver \<Rightarrow> Context \<Rightarrow> bizFn \<Rightarrow> world \<Rightarrow> err option result \<times> world" where
  "withNeverPropagation drv c bizFn w =
     (case c of
        Plain n \<Rightarrow> bizFn c (getPureDB drv c) w
      | CarrierRef a \<Rightarrow>
          (case lookup w a of
             None \<Rightarrow> (Panic nil_deref, w)
           | Some txCtx \<Rightarrow>
               if InTransaction txCtx then (Ret (Some ErrNeverPropInTransaction), w)
               else bizFn c (getPureDB drv c) w))"

text \<open>
  \<^verbatim>\<open>TransactionPropagation\<close> is an \<^verbatim>\<open>int8\<close>; the seven constants are 0 to 6 and any
  other value panics.
\<close>

type_synonym TransactionPropagation = "8 word"

definition PropagationRequired :: TransactionPropagation where "PropagationRequired = 0"
definition PropagationSupports :: TransactionPropagation where "PropagationSupports = 1"
definition PropagationMandatory :: TransactionPropagation where "PropagationMandatory = 2"
definition PropagationRequiresNew :: TransactionPropagation where "PropagationRequiresNew = 3"
definition PropagationNotSupported :: TransactionPropagation where "PropagationNotSupported = 4"
definition PropagationNested :: TransactionPropagation where "PropagationNested = 5"
definition PropagationNever :: TransactionPropagation where "PropagationNever = 6"

definition defaultPropagation :: TransactionPropagation where
  "defaultPropagation = PropagationRequired"

definition Transaction ::
  "driver \<Rightarrow> Context \<Rightarrow> nat \<Rightarrow> bizFn \<Rightarrow> TransactionPropagation list \<Rightarrow> world
     \<Rightarrow> err option result \<times> world" where
  "Transaction drv c fp bizFn propagations w =
     (let propagation = (case propagations of [] \<Rightarrow> defaultPropagation | p # ps \<Rightarrow> p)
      in if propagation = PropagationRequired then withRequiredPropagation drv c bizFn w
         else if propagation = PropagationSupports then withSupportsPropagation drv c bizFn w
         else if propagation = PropagationMandatory then withMandatoryPropagation drv c bizFn w
         else if propagation = PropagationRequiresNew then withRequiresNewPropagation drv c bizFn w
         else if propagation = PropagationNotSupported
              then withNotSupportedPropagation drv c bizFn w
         else if propagation = PropagationNested then withNestedPropagation drv c fp bizFn w
         else if propagation = PropagationNever then withNeverPropagation drv c bizFn w
         else (Panic ''not supported propagation'', w))"

section \<open>Vocabulary of the properties\<close>

text \<open>
  A context carries a live ambient transaction when it is a carrier and the carrier is in a
  transaction; it carries none when it is no carrier, or a carrier that is not in a
  transaction. A pointer to no carrier is neither.
\<close>

definition ambientLive :: "world \<Rightarrow> Context \<Rightarrow> bool" where
  "ambientLive w c =
     (case c of
        Plain n \<Rightarrow> False
      | CarrierRef a \<Rightarrow>
          (case lookup w a of None \<Rightarrow> False | Some txCtx \<Rightarrow> InTransaction txCtx))"

definition ambientNone :: "world \<Rightarrow> Context \<Rightarrow> bool" where
  "ambientNone w c =
     (case c of
        Plain n \<Rightarrow> True
      | CarrierRef a \<Rightarrow>
          (case lookup w a of None \<Rightarrow> False | Some txCtx \<Rightarrow> \<not> InTransaction txCtx))"

text \<open>
  What the engine may do to a carrier that exists: \<open>carrierKept t t'\<close> says that the
  carrier \<open>t\<close> has become \<open>t'\<close> with the same context and the same parent, and with the
  same handle if \<open>t\<close> was in a transaction. \<open>carriersKept w w'\<close> says so of every
  carrier of the world \<open>w\<close>, which the world \<open>w'\<close> still has at the same address.
\<close>

definition carrierKept :: "transactionContext \<Rightarrow> transactionContext \<Rightarrow> bool" where
  "carrierKept t t' =
     (ctx t' = ctx t \<and> parent t' = parent t \<and> (InTransaction t \<longrightarrow> tx t' = tx t))"

definition carriersKept :: "world \<Rightarrow> world \<Rightarrow> bool" where
  "carriersKept w w' =
     (length (heap w) \<le> length (heap w') \<and>
      list_all2 carrierKept (heap w) (take (length (heap w)) (heap w')))"

subsection \<open>Concrete drivers, business functions and worlds\<close>

definition pool0 :: gorm_db where
  "pool0 = \<lparr>ConnPool = SqlDB, Error = None, DisableNestedTransaction = False,
            StmtContext = Plain 0\<rparr>"

definition tx0 :: gorm_db where
  "tx0 = \<lparr>ConnPool = SqlTx 0, Error = None, DisableNestedTransaction = False,
          StmtContext = Plain 0\<rparr>"

text \<open>A driver on which every call succeeds; its transactions are numbered by the log.\<close>

definition drv_ok :: driver where
  "drv_ok = \<lparr>origin = pool0,
             begin_tx = (\<lambda>ops db. db\<lparr>ConnPool := SqlTx (length ops)\<rparr>),
             commit_err = (\<lambda>ops db. None),
             savepoint_err = (\<lambda>ops db name. None)\<rparr>"

text \<open>A business function that inserts one row through the handle it is given.\<close>

definition biz_insert :: "string \<Rightarrow> err option result \<Rightarrow> bizFn" where
  "biz_insert row out c db w = (out, emit (OpExec db row) w)"

definition w_empty :: world where
  "w_empty = \<lparr>heap = [], oplog = []\<rparr>"

text \<open>The world inside a root frame: its carrier at address 0, in transaction \<open>tx0\<close>.\<close>

definition w_live :: world where
  "w_live = \<lparr>heap = [\<lparr>ctx = Plain 0, tx = Some tx0, parent = None\<rparr>],
             oplog = [OpBegin pool0]\<rparr>"

text \<open>The handle a failed \<^verbatim>\<open>Begin\<close> answers with: an error, and no transaction.\<close>

definition dead0 :: gorm_db where
  "dead0 = \<lparr>ConnPool = SqlDB, Error = Some ''connection refused'',
            DisableNestedTransaction = False, StmtContext = Plain 0\<rparr>"

text \<open>Drivers on which one call fails: \<^verbatim>\<open>Begin\<close>, \<^verbatim>\<open>Commit\<close>, \<^verbatim>\<open>SavePoint\<close>.\<close>

definition drv_nobegin :: driver where
  "drv_nobegin = drv_ok\<lparr>begin_tx := (\<lambda>ops db. db\<lparr>Error := Some ''connection refused''\<rparr>)\<rparr>"

definition drv_nocommit :: driver where
  "drv_nocommit = drv_ok\<lparr>commit_err := (\<lambda>ops db. Some ''commit failed'')\<rparr>"

definition drv_nosavepoint :: driver where
  "drv_nosavepoint = drv_ok\<lparr>savepoint_err := (\<lambda>ops db name. Some ''savepoint failed'')\<rparr>"

text \<open>A world with one carrier whose handle is not a transaction.\<close>

definition w_dead :: world where
  "w_dead = \<lparr>heap = [\<lparr>ctx = Plain 0, tx = Some dead0, parent = None\<rparr>],
             oplog = [OpBegin pool0]\<rparr>"

text \<open>A world with one root carrier that has no handle.\<close>

definition w_idle :: world where
  "w_idle = \<lparr>heap = [\<lparr>ctx = Plain 0, tx = None, parent = None\<rparr>], oplog = []\<rparr>"

text \<open>
  A business function that inserts one row through the handle, bound to the context it
  is given.
\<close>

definition biz_probe :: "string \<Rightarrow> bizFn" where
  "biz_probe row c db w = (Ret None, emit (OpExec (WithContext c db) row) w)"

section \<open>Properties\<close>

lemmas Propagation_defs =
  PropagationRequired_def PropagationSupports_def PropagationMandatory_def
  PropagationRequiresNew_def PropagationNotSupported_def PropagationNested_def
  PropagationNever_def defaultPropagation_def

lemma Transaction_default:
  "Transaction drv c fp bizFn [] w = withRequiredPropagation drv c bizFn w"
  by (simp add: Transaction_def Propagation_defs)

lemma Transaction_Required:
  "Transaction drv c fp bizFn (PropagationRequired # ps) w = withRequiredPropagation drv c bizFn w"
  by (simp add: Transaction_def Propagation_defs)

lemma Transaction_Mandatory:
  "Transaction drv c fp bizFn (PropagationMandatory # ps) w =
     withMandatoryPropagation drv c bizFn w"
  by (simp add: Transaction_def Propagation_defs)

lemma Transaction_RequiresNew:
  "Transaction drv c fp bizFn (PropagationRequiresNew # ps) w =
     withRequiresNewPropagation drv c bizFn w"
  by (simp add: Transaction_def Propagation_defs)

lemma Transaction_NotSupported:
  "Transaction drv c fp bizFn (PropagationNotSupported # ps) w =
     withNotSupportedPropagation drv c bizFn w"
  by (simp add: Transaction_def Propagation_defs)

lemma Transaction_Nested:
  "Transaction drv c fp bizFn (PropagationNested # ps) w =
     withNestedPropagation drv c fp bizFn w"
  by (simp add: Transaction_def Propagation_defs)

lemma Transaction_Never:
  "Transaction drv c fp bizFn (PropagationNever # ps) w = withNeverPropagation drv c bizFn w"
  by (simp add: Transaction_def Propagation_defs)

lemmas engine_defs =
  Transaction_def Propagation_defs withRequiredPropagation_def withRequiresNewPropagation_def
  withNotSupportedPropagation_def withNestedPropagation_def pureCtxOf_def
  beginFresh_def beginReuse_def rootFrame_def deferredRollback_def deferredRollbackTo_def
  joinAmbient_def Session_def Commit_def Rollback_def TxError_def InTransaction_def IsRoot_def
  getPureDB_def WithContext_def alloc_def emit_def lookup_def Let_def

lemmas example_defs =
  drv_ok_def drv_nobegin_def drv_nocommit_def drv_nosavepoint_def pool0_def tx0_def dead0_def
  w_empty_def w_live_def w_dead_def w_idle_def biz_insert_def biz_probe_def

subsection \<open>The store and the log\<close>

lemma lookup_emit [simp]: "lookup (emit e w) a = lookup w a"
  by (simp add: lookup_def emit_def)

lemma heap_emit [simp]: "heap (emit e w) = heap w"
  by (simp add: emit_def)

lemma oplog_emit [simp]: "oplog (emit e w) = oplog w @ [e]"
  by (simp add: emit_def)

subsection \<open>Root frames\<close>

text \<open>
  A root carrier in a transaction is rolled back and committed through the driver.
\<close>

lemma Rollback_root:
  "lookup w a = Some t \<Longrightarrow> tx t = Some db \<Longrightarrow> ConnPool db = SqlTx i \<Longrightarrow> parent t = None \<Longrightarrow>
     Rollback a w = (Ret (), emit (OpRollback db) w)"
  by (simp add: Rollback_def InTransaction_def IsRoot_def)

lemma Commit_root:
  "lookup w a = Some t \<Longrightarrow> tx t = Some db \<Longrightarrow> ConnPool db = SqlTx i \<Longrightarrow> parent t = None \<Longrightarrow>
     Commit drv a w = (Ret (commit_err drv (oplog w) db), emit (OpCommit db) w)"
  by (simp add: Commit_def InTransaction_def IsRoot_def)

text \<open>
  The outcome of a root frame whose \<^verbatim>\<open>Begin\<close> succeeded, when the business function
  leaves the frame's carrier as it is.
\<close>

lemma rootFrame_outcome:
  assumes "lookup w1 a = Some t" and "tx t = Some txdb" and "parent t = None"
    and "Error txdb = None" and "ConnPool txdb = SqlTx i"
    and "bizFn (CarrierRef a) txdb w1 = (r, w2)" and "lookup w2 a = lookup w1 a"
  shows "rootFrame drv a txdb bizFn w1 =
     (case r of
        Ret None \<Rightarrow>
          (case commit_err drv (oplog w2) txdb of
             None \<Rightarrow> (Ret None, emit (OpCommit txdb) w2)
           | Some e \<Rightarrow> (Ret (Some e), emit (OpRollback txdb) (emit (OpCommit txdb) w2)))
      | _ \<Rightarrow> (r, emit (OpRollback txdb) w2))"
proof -
  have l2: "lookup w2 a = Some t" using assms by simp
  have rb: "\<And>w. lookup w a = Some t \<Longrightarrow> Rollback a w = (Ret (), emit (OpRollback txdb) w)"
    using assms by (simp add: Rollback_root)
  have cm: "Commit drv a w2 = (Ret (commit_err drv (oplog w2) txdb), emit (OpCommit txdb) w2)"
    using assms l2 by (simp add: Commit_root)
  show ?thesis
    using assms l2 cm rb
    by (auto simp: rootFrame_def deferredRollback_def TxError_def
        split: result.splits option.splits)
qed

lemma rootFrame_begin_failed:
  assumes "lookup w1 a = Some t" and "tx t = Some txdb" and "parent t = None"
    and "Error txdb = Some e"
  shows "rootFrame drv a txdb bizFn w1 =
     (Ret (Some e),
      case ConnPool txdb of SqlDB \<Rightarrow> w1 | SqlTx i \<Rightarrow> emit (OpRollback txdb) w1)"
  using assms
  by (simp add: rootFrame_def deferredRollback_def TxError_def Rollback_def InTransaction_def
      IsRoot_def split: conn_pool.splits)

lemma beginFresh_facts:
  assumes "beginFresh drv pc c w = (txdb, a, w1)"
  shows "txdb = begin_tx drv (oplog w) (getPureDB drv pc)"
    and "a = length (heap w)"
    and "oplog w1 = oplog w @ [OpBegin (getPureDB drv pc)]"
    and "heap w1 = heap w @ [\<lparr>ctx = c, tx = Some txdb, parent = None\<rparr>]"
    and "lookup w1 a = Some \<lparr>ctx = c, tx = Some txdb, parent = None\<rparr>"
  using assms by (auto simp: beginFresh_def alloc_def emit_def lookup_def Let_def)

lemma beginReuse_facts:
  assumes "beginReuse drv c a t w = (txdb, a', w1)" and "lookup w a = Some t"
  shows "txdb = begin_tx drv (oplog w) (getPureDB drv c)"
    and "a' = a"
    and "oplog w1 = oplog w @ [OpBegin (getPureDB drv c)]"
    and "heap w1 = (heap w)[a := t\<lparr>tx := Some txdb\<rparr>]"
    and "lookup w1 a = Some (t\<lparr>tx := Some txdb\<rparr>)"
  using assms by (auto simp: beginReuse_def emit_def lookup_def Let_def split: if_splits)

lemma withRequired_start:
  assumes "(c = Plain n \<and> beginFresh drv c c w = (txdb, a, w1)) \<or>
           (c = CarrierRef a \<and> lookup w a = Some t \<and> \<not> InTransaction t \<and> IsRoot t \<and>
            beginReuse drv c a t w = (txdb, a, w1))"
  shows "withRequiredPropagation drv c bizFn w = rootFrame drv a txdb bizFn w1"
    and "txdb = begin_tx drv (oplog w) (getPureDB drv c)"
    and "oplog w1 = oplog w @ [OpBegin (getPureDB drv c)]"
    and "\<exists>t1. lookup w1 a = Some t1 \<and> tx t1 = Some txdb \<and> parent t1 = None"
  using assms
  by (auto simp: withRequiredPropagation_def IsRoot_def
      dest: beginFresh_facts beginReuse_facts)

lemma withRequiresNew_start:
  assumes "pureCtxOf w c = Some pc" and "beginFresh drv pc c w = (txdb, a, w1)"
  shows "withRequiresNewPropagation drv c bizFn w = rootFrame drv a txdb bizFn w1"
  using assms by (simp add: withRequiresNewPropagation_def)

subsection \<open>Joining frames\<close>

text \<open>
  A frame that joins the carrier at address \<open>a\<close> runs the business function on a new
  child carrier, put at the end of the store, and on the handle of the carrier at \<open>a\<close>.
\<close>

lemma joinAmbient_run:
  assumes "lookup w a = Some t" and "tx t = Some db"
  shows "joinAmbient a bizFn w =
     bizFn (CarrierRef (length (heap w))) db
       (w\<lparr>heap := heap w @ [\<lparr>ctx = ctx t, tx = Some (WithContext (ctx t) db),
                                parent = Some a\<rparr>]\<rparr>)"
  using assms
  by (auto simp: joinAmbient_def Session_def alloc_def lookup_def nth_append
      split: if_splits)

subsection \<open>Propagation violations\<close>

text \<open>
  Claim C4. A \<^verbatim>\<open>Mandatory\<close> call on a context without a live ambient transaction
  returns \<^verbatim>\<open>ErrMandatoryPropWithoutTransaction\<close>, and a \<^verbatim>\<open>Never\<close> call on a
  context with a live ambient transaction returns \<^verbatim>\<open>ErrNeverPropInTransaction\<close>. In
  both cases the business function is not invoked: the outcome is the same for every
  business function, no carrier is created and no driver call is issued.
\<close>

theorem propagation_violation:
  "(ambientNone w c \<longrightarrow>
      Transaction drv c fp bizFn (PropagationMandatory # ps) w =
        (Ret (Some ErrMandatoryPropWithoutTransaction), w)) \<and>
   (ambientLive w c \<longrightarrow>
      Transaction drv c fp bizFn (PropagationNever # ps) w =
        (Ret (Some ErrNeverPropInTransaction), w))"
  by (auto simp: Transaction_Mandatory Transaction_Never ambientNone_def ambientLive_def
      withMandatoryPropagation_def withNeverPropagation_def
      split: Context.splits option.splits)

theorem propagation_violation_witness:
  "ambientNone w_empty (Plain 0) \<and>
   Transaction drv_ok (Plain 0) 49152 (biz_insert ''u1'' (Ret None)) [PropagationMandatory]
     w_empty = (Ret (Some ErrMandatoryPropWithoutTransaction), w_empty) \<and>
   ambientLive w_live (CarrierRef 0) \<and>
   Transaction drv_ok (CarrierRef 0) 49152 (biz_insert ''u2'' (Ret None)) [PropagationNever]
     w_live = (Ret (Some ErrNeverPropInTransaction), w_live)"
  using propagation_violation [of w_empty "Plain 0" drv_ok 49152 "biz_insert ''u1'' (Ret None)" "[]"]
    propagation_violation [of w_live "CarrierRef 0" drv_ok 49152 "biz_insert ''u2'' (Ret None)" "[]"]
  by (simp add: ambientNone_def ambientLive_def w_live_def lookup_def InTransaction_def tx0_def)

subsection \<open>A nested frame without an ambient transaction\<close>

text \<open>
  Claim C7. On a context that does not carry a live ambient transaction, a \<^verbatim>\<open>Nested\<close>
  frame and a \<^verbatim>\<open>Required\<close> frame on the same inputs have the same outcome and leave
  the same world: the same carriers and the same driver calls in the same order.
\<close>

theorem nested_without_ambient_is_required:
  "\<not> ambientLive w c \<Longrightarrow>
     Transaction drv c fp bizFn (PropagationNested # ps) w =
       Transaction drv c fp bizFn (PropagationRequired # ps) w"
  by (auto simp: Transaction_Nested Transaction_Required ambientLive_def
      withNestedPropagation_def withRequiredPropagation_def
      split: Context.splits option.splits)

theorem nested_without_ambient_is_required_witness:
  "\<not> ambientLive w_empty (Plain 0) \<and>
   Transaction drv_ok (Plain 0) 49152 (biz_insert ''u1'' (Ret (Some ''mock error'')))
     [PropagationNested] w_empty =
   Transaction drv_ok (Plain 0) 49152 (biz_insert ''u1'' (Ret (Some ''mock error'')))
     [PropagationRequired] w_empty"
  using nested_without_ambient_is_required
    [of w_empty "Plain 0" drv_ok 49152 "biz_insert ''u1'' (Ret (Some ''mock error''))" "[]"]
  by (simp add: ambientLive_def)

subsection \<open>Configuration defaults\<close>

text \<open>
  Claim C9. \<^verbatim>\<open>PatchDefaultConfig\<close> replaces each unset field (a zero number, an empty
  string) by its default: port 5432, 5 idle connections, 20 open connections, a lifetime
  of 3600 seconds, dialect \<^verbatim>\<open>mysql\<close>. It leaves every field that is set, and the host,
  user, password, database and log flag, as they are, and it panics exactly when the
  database name is empty.
\<close>

theorem PatchDefaultConfig_defaults:
  "PatchDefaultConfig c =
     (if Database c = [] then Panic ''database must be set'' else Ret (),
      c\<lparr>Port := (if Port c = 0 then 5432 else Port c),
        MaxIdleConns := (if MaxIdleConns c = 0 then 5 else MaxIdleConns c),
        MaxOpenConns := (if MaxOpenConns c = 0 then 20 else MaxOpenConns c),
        ConnMaxLifetimeSec := (if ConnMaxLifetimeSec c = 0 then 3600 else ConnMaxLifetimeSec c),
        Dialect := (if Dialect c = [] then ''mysql'' else Dialect c)\<rparr>)"
  by (simp add: PatchDefaultConfig_def DefaultConfig_def Let_def)

theorem PatchDefaultConfig_defaults_witness:
  "PatchDefaultConfig
     \<lparr>Host = ''localhost'', Port = 3306, User = ''root'', Password = ''123456'',
      Database = ''pt'', MaxIdleConns = 0, MaxOpenConns = 0, ConnMaxLifetimeSec = 0,
      DbLog = False, Dialect = []\<rparr> =
   (Ret (),
    \<lparr>Host = ''localhost'', Port = 3306, User = ''root'', Password = ''123456'',
      Database = ''pt'', MaxIdleConns = 5, MaxOpenConns = 20, ConnMaxLifetimeSec = 3600,
      DbLog = False, Dialect = ''mysql''\<rparr>)"
  using PatchDefaultConfig_defaults
    [of "\<lparr>Host = ''localhost'', Port = 3306, User = ''root'', Password = ''123456'',
          Database = ''pt'', MaxIdleConns = 0, MaxOpenConns = 0, ConnMaxLifetimeSec = 0,
          DbLog = False, Dialect = []\<rparr>"]
  by simp

subsection \<open>A required frame that opens the transaction\<close>

text \<open>
  Claim C1, as stated, fails when \<^verbatim>\<open>Begin\<close> fails: the frame returns the error of
  \<^verbatim>\<open>Begin\<close>, the business function is not invoked (its row is not in the log) and
  neither \<^verbatim>\<open>COMMIT\<close> nor \<^verbatim>\<open>ROLLBACK\<close> is issued.
\<close>

theorem required_begin_fails_counterexample:
  "ambientNone w_empty (Plain 0) \<and>
   Transaction drv_nobegin (Plain 0) 49152 (biz_insert ''u1'' (Ret None)) [PropagationRequired]
     w_empty = (Ret (Some ''connection refused''), w_dead) \<and>
   oplog w_dead = [OpBegin pool0]"
  by (simp add: ambientNone_def engine_defs example_defs)

text \<open>
  Claim C1, amended. A \<^verbatim>\<open>Required\<close> frame on a context that is no carrier, or is a
  root carrier outside a transaction, issues \<^verbatim>\<open>BEGIN\<close> on a pool handle bound to the
  context and puts the new handle in a root carrier (a new one, or the carrier the context
  is). When \<^verbatim>\<open>Begin\<close> succeeded (the handle has no error and is a transaction), the
  business function is invoked with that carrier and the handle. When it returns an error
  or panics, the frame issues \<^verbatim>\<open>ROLLBACK\<close> on the handle and passes the error or the
  panic on; when it returns \<^verbatim>\<open>nil\<close>, the next driver call is \<^verbatim>\<open>COMMIT\<close> on the
  handle and the frame returns what the commit answers. The business function is assumed
  to leave the frame's carrier as it is. When the handle of \<^verbatim>\<open>Begin\<close> carries an
  error, the frame returns that error whatever the business function is, after a
  \<^verbatim>\<open>ROLLBACK\<close> if the handle is a transaction all the same.
\<close>

theorem required_root_frame:
  assumes start:
      "(c = Plain n \<and> beginFresh drv c c w = (txdb, a, w1)) \<or>
       (c = CarrierRef a \<and> lookup w a = Some t \<and> \<not> InTransaction t \<and> IsRoot t \<and>
        beginReuse drv c a t w = (txdb, a, w1))"
  shows "txdb = begin_tx drv (oplog w) (getPureDB drv c) \<and>
         oplog w1 = oplog w @ [OpBegin (getPureDB drv c)] \<and>
         (\<exists>t1. lookup w1 a = Some t1 \<and> IsRoot t1 \<and> tx t1 = Some txdb) \<and>
         (Error txdb = Some e \<longrightarrow>
            Transaction drv c fp bizFn (PropagationRequired # ps) w =
              (Ret (Some e),
               case ConnPool txdb of SqlDB \<Rightarrow> w1 | SqlTx j \<Rightarrow> emit (OpRollback txdb) w1)) \<and>
         (Error txdb = None \<and> ConnPool txdb = SqlTx i \<and>
          bizFn (CarrierRef a) txdb w1 = (r, w2) \<and> lookup w2 a = lookup w1 a \<longrightarrow>
            (r \<noteq> Ret None \<longrightarrow>
               Transaction drv c fp bizFn (PropagationRequired # ps) w =
                 (r, emit (OpRollback txdb) w2)) \<and>
            (r = Ret None \<longrightarrow>
               fst (Transaction drv c fp bizFn (PropagationRequired # ps) w) =
                 Ret (commit_err drv (oplog w2) txdb) \<and>
               take (Suc (length (oplog w2)))
                 (oplog (snd (Transaction drv c fp bizFn (PropagationRequired # ps) w))) =
                 oplog w2 @ [OpCommit txdb]))"
proof -
  obtain t1 where t1: "lookup w1 a = Some t1" "tx t1 = Some txdb" "parent t1 = None"
    using withRequired_start(4) [OF start] by blast
  have tr: "Transaction drv c fp bizFn (PropagationRequired # ps) w =
      rootFrame drv a txdb bizFn w1"
    using withRequired_start(1) [OF start] by (simp add: Transaction_Required)
  have failed: "Error txdb = Some e \<longrightarrow>
      Transaction drv c fp bizFn (PropagationRequired # ps) w =
        (Ret (Some e),
         case ConnPool txdb of SqlDB \<Rightarrow> w1 | SqlTx j \<Rightarrow> emit (OpRollback txdb) w1)"
    using rootFrame_begin_failed [OF t1] tr by simp
  have begun: "(r \<noteq> Ret None \<longrightarrow>
         Transaction drv c fp bizFn (PropagationRequired # ps) w =
           (r, emit (OpRollback txdb) w2)) \<and>
      (r = Ret None \<longrightarrow>
         fst (Transaction drv c fp bizFn (PropagationRequired # ps) w) =
           Ret (commit_err drv (oplog w2) txdb) \<and>
         take (Suc (length (oplog w2)))
           (oplog (snd (Transaction drv c fp bizFn (PropagationRequired # ps) w))) =
           oplog w2 @ [OpCommit txdb])"
    if ok: "Error txdb = None" "ConnPool txdb = SqlTx i"
      and biz: "bizFn (CarrierRef a) txdb w1 = (r, w2)"
      and kept: "lookup w2 a = lookup w1 a"
    unfolding tr rootFrame_outcome [where bizFn = bizFn and drv = drv, OF t1 ok biz kept]
    by (simp split: result.splits option.splits)
  show ?thesis
    using withRequired_start(2,3) [OF start] t1 failed begun by (simp add: IsRoot_def)
qed

theorem required_root_frame_witness:
  "beginFresh drv_ok (Plain 0) (Plain 0) w_empty = (tx0, 0, w_live) \<and>
   Error tx0 = None \<and> ConnPool tx0 = SqlTx 0 \<and>
   biz_insert ''u1'' (Ret (Some ''mock error'')) (CarrierRef 0) tx0 w_live =
     (Ret (Some ''mock error''), emit (OpExec tx0 ''u1'') w_live) \<and>
   Transaction drv_ok (Plain 0) 49152 (biz_insert ''u1'' (Ret (Some ''mock error'')))
     [PropagationRequired] w_empty =
     (Ret (Some ''mock error''),
      \<lparr>heap = [\<lparr>ctx = Plain 0, tx = Some tx0, parent = None\<rparr>],
       oplog = [OpBegin pool0, OpExec tx0 ''u1'', OpRollback tx0]\<rparr>)"
  using required_root_frame [where c = "Plain 0" and n = 0 and drv = drv_ok and w = w_empty
      and txdb = tx0 and a = 0 and ?w1.0 = w_live and i = 0
      and bizFn = "biz_insert ''u1'' (Ret (Some ''mock error''))"
      and r = "Ret (Some ''mock error'')" and ?w2.0 = "emit (OpExec tx0 ''u1'') w_live"
      and fp = 49152 and ps = "[]"]
  by (simp add: beginFresh_def getPureDB_def WithContext_def alloc_def emit_def lookup_def
      Let_def IsRoot_def example_defs)

subsection \<open>A commit that fails\<close>

text \<open>
  Claim C3, as stated, fails: after a \<^verbatim>\<open>COMMIT\<close> that answers with an error the
  deferred function of the frame sees \<^verbatim>\<open>err != nil\<close> and calls \<^verbatim>\<open>Rollback\<close>, which
  issues \<^verbatim>\<open>ROLLBACK\<close> on the same handle.
\<close>

theorem commit_error_counterexample:
  "Transaction drv_nocommit (Plain 0) 49152 (biz_insert ''u1'' (Ret None))
     [PropagationRequired] w_empty =
     (Ret (Some ''commit failed''),
      \<lparr>heap = [\<lparr>ctx = Plain 0, tx = Some tx0, parent = None\<rparr>],
       oplog = [OpBegin pool0, OpExec tx0 ''u1'', OpCommit tx0, OpRollback tx0]\<rparr>)"
  by (simp add: engine_defs example_defs)

text \<open>
  Claim C3, amended. In a root frame (\<^verbatim>\<open>Required\<close> on a context that is no carrier or
  is a root carrier outside a transaction, or \<^verbatim>\<open>RequiresNew\<close>) whose \<^verbatim>\<open>Begin\<close>
  succeeded and whose business function returns \<^verbatim>\<open>nil\<close>, a failing \<^verbatim>\<open>COMMIT\<close>
  gives the frame's return value, and the frame then issues \<^verbatim>\<open>ROLLBACK\<close> on the same
  handle: the log ends with \<^verbatim>\<open>COMMIT\<close>, \<^verbatim>\<open>ROLLBACK\<close>.
\<close>

theorem commit_error_returned_then_rollback:
  assumes start:
      "(p = PropagationRequired \<and> c = Plain n \<and> beginFresh drv c c w = (txdb, a, w1)) \<or>
       (p = PropagationRequired \<and> c = CarrierRef a \<and> lookup w a = Some t \<and>
        \<not> InTransaction t \<and> IsRoot t \<and> beginReuse drv c a t w = (txdb, a, w1)) \<or>
       (p = PropagationRequiresNew \<and> pureCtxOf w c = Some pc \<and>
        beginFresh drv pc c w = (txdb, a, w1))"
    and ok: "Error txdb = None" "ConnPool txdb = SqlTx i"
    and biz: "bizFn (CarrierRef a) txdb w1 = (Ret None, w2)"
    and kept: "lookup w2 a = lookup w1 a"
    and commit: "commit_err drv (oplog w2) txdb = Some e"
  shows "Transaction drv c fp bizFn (p # ps) w =
           (Ret (Some e), emit (OpRollback txdb) (emit (OpCommit txdb) w2))"
proof -
  have "\<exists>t1. lookup w1 a = Some t1 \<and> tx t1 = Some txdb \<and> parent t1 = None"
    using start by (auto simp: IsRoot_def dest: beginFresh_facts beginReuse_facts)
  then obtain t1 where t1: "lookup w1 a = Some t1" "tx t1 = Some txdb" "parent t1 = None"
    by blast
  have "Transaction drv c fp bizFn (p # ps) w = rootFrame drv a txdb bizFn w1"
    using start
    by (auto simp: Transaction_Required Transaction_RequiresNew withRequiresNew_start
        withRequiredPropagation_def)
  then show ?thesis
    using rootFrame_outcome [where bizFn = bizFn and drv = drv, OF t1 ok biz kept] commit
    by simp
qed


theorem commit_error_returned_then_rollback_witness:
  "pureCtxOf w_live (CarrierRef 0) = Some (Plain 0) \<and>
   Transaction drv_nocommit (CarrierRef 0) 49152 (biz_insert ''u2'' (Ret None))
     [PropagationRequiresNew] w_live =
     (Ret (Some ''commit failed''),
      \<lparr>heap = [\<lparr>ctx = Plain 0, tx = Some tx0, parent = None\<rparr>,
               \<lparr>ctx = CarrierRef 0, tx = Some (tx0\<lparr>ConnPool := SqlTx 1\<rparr>), parent = None\<rparr>],
       oplog = [OpBegin pool0, OpBegin pool0, OpExec (tx0\<lparr>ConnPool := SqlTx 1\<rparr>) ''u2'',
                OpCommit (tx0\<lparr>ConnPool := SqlTx 1\<rparr>), OpRollback (tx0\<lparr>ConnPool := SqlTx 1\<rparr>)]\<rparr>)"
  using commit_error_returned_then_rollback [where p = PropagationRequiresNew
      and c = "CarrierRef 0" and drv = drv_nocommit and w = w_live and pc = "Plain 0"
      and txdb = "tx0\<lparr>ConnPool := SqlTx 1\<rparr>" and a = 1 and i = 1
      and ?w1.0 = "\<lparr>heap = [\<lparr>ctx = Plain 0, tx = Some tx0, parent = None\<rparr>,
               \<lparr>ctx = CarrierRef 0, tx = Some (tx0\<lparr>ConnPool := SqlTx 1\<rparr>), parent = None\<rparr>],
               oplog = [OpBegin pool0, OpBegin pool0]\<rparr>"
      and bizFn = "biz_insert ''u2'' (Ret None)"
      and ?w2.0 = "\<lparr>heap = [\<lparr>ctx = Plain 0, tx = Some tx0, parent = None\<rparr>,
               \<lparr>ctx = CarrierRef 0, tx = Some (tx0\<lparr>ConnPool := SqlTx 1\<rparr>), parent = None\<rparr>],
               oplog = [OpBegin pool0, OpBegin pool0, OpExec (tx0\<lparr>ConnPool := SqlTx 1\<rparr>) ''u2'']\<rparr>"
      and e = "''commit failed''" and fp = 49152 and ps = "[]"]
  by (simp add: Propagation_defs pureCtxOf_def beginFresh_def getPureDB_def WithContext_def
      alloc_def emit_def lookup_def Let_def example_defs)

subsection \<open>The handle of a context\<close>

text \<open>
  Claim C8, as stated, fails: \<^verbatim>\<open>GetDB\<close> tests \<^verbatim>\<open>txCtx.tx != nil\<close>, not
  \<^verbatim>\<open>InTransaction\<close>. For a carrier whose handle is not a live transaction it returns
  that handle, not a pool handle bound to the context.
\<close>

theorem GetDB_dead_tx_counterexample:
  "\<not> ambientLive w_dead (CarrierRef 0) \<and>
   GetDB drv_ok (CarrierRef 0) w_dead = Ret dead0 \<and>
   GetDB drv_ok (CarrierRef 0) w_dead \<noteq> Ret (getPureDB drv_ok (CarrierRef 0))"
  by (simp add: GetDB_def getPureDB_def ambientLive_def lookup_def w_dead_def dead0_def
      InTransaction_def WithContext_def drv_ok_def pool0_def)

text \<open>
  Claim C8, amended. \<^verbatim>\<open>GetDB\<close> returns the carrier's handle exactly when the context is
  a carrier whose handle is not empty, live or not; for a carrier without a handle and for
  a context that is no carrier it returns the factory's handle bound to the context.
\<close>

theorem GetDB_nonempty_tx:
  "GetDB drv (Plain n) w = Ret (WithContext (Plain n) (origin drv)) \<and>
   (lookup w a = Some t \<longrightarrow>
      GetDB drv (CarrierRef a) w =
        (case tx t of
           Some db \<Rightarrow> Ret db
         | None \<Rightarrow> Ret (WithContext (CarrierRef a) (origin drv))))"
  by (simp add: GetDB_def getPureDB_def split: option.splits)

theorem GetDB_nonempty_tx_witness:
  "lookup w_live 0 = Some \<lparr>ctx = Plain 0, tx = Some tx0, parent = None\<rparr> \<and>
   GetDB drv_ok (CarrierRef 0) w_live = Ret tx0 \<and>
   lookup w_dead 0 = Some \<lparr>ctx = Plain 0, tx = Some dead0, parent = None\<rparr> \<and>
   GetDB drv_ok (CarrierRef 0) w_dead = Ret dead0"
  using GetDB_nonempty_tx [of drv_ok 0 w_live 0 "\<lparr>ctx = Plain 0, tx = Some tx0, parent = None\<rparr>"]
    GetDB_nonempty_tx [of drv_ok 0 w_dead 0 "\<lparr>ctx = Plain 0, tx = Some dead0, parent = None\<rparr>"]
  by (simp add: lookup_def w_live_def w_dead_def)

subsection \<open>A nested frame inside a transaction\<close>

text \<open>
  Claim C2, as stated, fails when \<^verbatim>\<open>SavePoint\<close> fails: the business function is not
  invoked (no child carrier, no row in the log), \<^verbatim>\<open>ROLLBACK TO\<close> is issued all the
  same, and the frame returns the error of \<^verbatim>\<open>SavePoint\<close>.
\<close>

theorem nested_savepoint_fails_counterexample:
  "ambientLive w_live (CarrierRef 0) \<and>
   Transaction drv_nosavepoint (CarrierRef 0) 49152 (biz_insert ''u2'' (Ret None))
     [PropagationNested] w_live =
     (Ret (Some ''savepoint failed''),
      \<lparr>heap = [\<lparr>ctx = Plain 0, tx = Some tx0, parent = None\<rparr>],
       oplog = [OpBegin pool0, OpSavePoint tx0 ''sp0xc000'', OpRollbackTo tx0 ''sp0xc000'']\<rparr>)"
  by (simp add: ambientLive_def engine_defs example_defs sp_name_def hex.simps hex_digit_def)

text \<open>
  Claim C2, amended. A \<^verbatim>\<open>Nested\<close> frame on a carrier in a live transaction, on a
  handle that does not disable nested transactions, first issues \<^verbatim>\<open>SAVEPOINT\<close> on
  the ambient handle, named \<^verbatim>\<open>sp\<close> and the address of the business function. When
  \<^verbatim>\<open>SavePoint\<close> fails, the frame issues \<^verbatim>\<open>ROLLBACK TO\<close> that name and returns the
  error, whatever the business function is. When it succeeds, the business function runs
  on a child carrier (same context, same transaction, parent the ambient carrier) with
  \<^verbatim>\<open>SAVEPOINT\<close> already in the log; if it returns an error or panics, the frame issues
  \<^verbatim>\<open>ROLLBACK TO\<close> that name and passes the error or the panic on unchanged; if it
  returns \<^verbatim>\<open>nil\<close>, the frame returns \<^verbatim>\<open>nil\<close> and issues nothing more.
\<close>

theorem nested_savepoint_frame:
  assumes live: "lookup w a = Some t" "tx t = Some db" "ConnPool db = SqlTx i"
    and nested: "\<not> DisableNestedTransaction db"
    and session: "s = length (heap w)"
      "w1 = w\<lparr>heap := heap w @ [\<lparr>ctx = ctx t, tx = Some (WithContext (ctx t) db),
                                 parent = Some a\<rparr>],
               oplog := oplog w @ [OpSavePoint db (sp_name fp)]\<rparr>"
  shows "(savepoint_err drv (oplog w) db (sp_name fp) = Some e \<longrightarrow>
            Transaction drv (CarrierRef a) fp bizFn (PropagationNested # ps) w =
              (Ret (Some e),
               emit (OpRollbackTo db (sp_name fp)) (emit (OpSavePoint db (sp_name fp)) w))) \<and>
         (savepoint_err drv (oplog w) db (sp_name fp) = None \<and>
          bizFn (CarrierRef s) db w1 = (r, w2) \<longrightarrow>
            Transaction drv (CarrierRef a) fp bizFn (PropagationNested # ps) w =
              (case r of
                 Ret None \<Rightarrow> (Ret None, w2)
               | _ \<Rightarrow> (r, emit (OpRollbackTo db (sp_name fp)) w2)))"
proof -
  have j: "joinAmbient a bizFn (emit (OpSavePoint db (sp_name fp)) w) =
      bizFn (CarrierRef s) db w1"
  proof -
    have "lookup (emit (OpSavePoint db (sp_name fp)) w) a = Some t"
      using live by simp
    moreover have "(emit (OpSavePoint db (sp_name fp)) w)
        \<lparr>heap := heap (emit (OpSavePoint db (sp_name fp)) w) @
           [\<lparr>ctx = ctx t, tx = Some (WithContext (ctx t) db), parent = Some a\<rparr>]\<rparr> = w1"
      unfolding session by (rule world.equality) (simp_all add: emit_def)
    ultimately show ?thesis
      using joinAmbient_run [where bizFn = bizFn and w = "emit (OpSavePoint db (sp_name fp)) w"
          and a = a and t = t and db = db] live(2) session(1)
      by simp
  qed
  show ?thesis
    using live nested j
    by (auto simp: Transaction_Nested withNestedPropagation_def InTransaction_def
        deferredRollbackTo_def split: result.splits option.splits)
qed

theorem nested_savepoint_frame_witness:
  "lookup w_live 0 = Some \<lparr>ctx = Plain 0, tx = Some tx0, parent = None\<rparr> \<and>
   \<not> DisableNestedTransaction tx0 \<and>
   savepoint_err drv_ok (oplog w_live) tx0 (sp_name 49152) = None \<and>
   Transaction drv_ok (CarrierRef 0) 49152 (biz_insert ''u2'' (Ret (Some ''mock error'')))
     [PropagationNested] w_live =
     (Ret (Some ''mock error''),
      \<lparr>heap = [\<lparr>ctx = Plain 0, tx = Some tx0, parent = None\<rparr>,
               \<lparr>ctx = Plain 0, tx = Some tx0, parent = Some 0\<rparr>],
       oplog = [OpBegin pool0, OpSavePoint tx0 ''sp0xc000'', OpExec tx0 ''u2'',
                OpRollbackTo tx0 ''sp0xc000'']\<rparr>) \<and>
   Transaction drv_ok (CarrierRef 0) 49152 (biz_insert ''u3'' (Ret None))
     [PropagationNested] w_live =
     (Ret None,
      \<lparr>heap = [\<lparr>ctx = Plain 0, tx = Some tx0, parent = None\<rparr>,
               \<lparr>ctx = Plain 0, tx = Some tx0, parent = Some 0\<rparr>],
       oplog = [OpBegin pool0, OpSavePoint tx0 ''sp0xc000'', OpExec tx0 ''u3'']\<rparr>)"
  using nested_savepoint_frame [where w = w_live and a = 0
      and t = "\<lparr>ctx = Plain 0, tx = Some tx0, parent = None\<rparr>" and db = tx0 and i = 0
      and s = 1 and fp = 49152 and drv = drv_ok
      and ?w1.0 = "\<lparr>heap = [\<lparr>ctx = Plain 0, tx = Some tx0, parent = None\<rparr>,
               \<lparr>ctx = Plain 0, tx = Some tx0, parent = Some 0\<rparr>],
               oplog = [OpBegin pool0, OpSavePoint tx0 ''sp0xc000'']\<rparr>"
      and bizFn = "biz_insert ''u2'' (Ret (Some ''mock error''))"
      and r = "Ret (Some ''mock error'')"
      and ?w2.0 = "\<lparr>heap = [\<lparr>ctx = Plain 0, tx = Some tx0, parent = None\<rparr>,
               \<lparr>ctx = Plain 0, tx = Some tx0, parent = Some 0\<rparr>],
               oplog = [OpBegin pool0, OpSavePoint tx0 ''sp0xc000'', OpExec tx0 ''u2'']\<rparr>"
      and ps = "[]"]
    nested_savepoint_frame [where w = w_live and a = 0
      and t = "\<lparr>ctx = Plain 0, tx = Some tx0, parent = None\<rparr>" and db = tx0 and i = 0
      and s = 1 and fp = 49152 and drv = drv_ok
      and ?w1.0 = "\<lparr>heap = [\<lparr>ctx = Plain 0, tx = Some tx0, parent = None\<rparr>,
               \<lparr>ctx = Plain 0, tx = Some tx0, parent = Some 0\<rparr>],
               oplog = [OpBegin pool0, OpSavePoint tx0 ''sp0xc000'']\<rparr>"
      and bizFn = "biz_insert ''u3'' (Ret None)"
      and r = "Ret None"
      and ?w2.0 = "\<lparr>heap = [\<lparr>ctx = Plain 0, tx = Some tx0, parent = None\<rparr>,
               \<lparr>ctx = Plain 0, tx = Some tx0, parent = Some 0\<rparr>],
               oplog = [OpBegin pool0, OpSavePoint tx0 ''sp0xc000'', OpExec tx0 ''u3'']\<rparr>"
      and ps = "[]"]
  by (simp add: lookup_def emit_def WithContext_def example_defs sp_name_def hex.simps
      hex_digit_def)

subsection \<open>Frames that suspend the ambient transaction\<close>

text \<open>
  Claim C5, as stated, fails: the carrier of a \<^verbatim>\<open>RequiresNew\<close> frame has no parent (it
  is a root carrier; the outer carrier is its \<^verbatim>\<open>ctx\<close>), and a \<^verbatim>\<open>NotSupported\<close>
  frame constructs no carrier at all: the business function gets the context the outer
  carrier wraps.
\<close>

theorem suspending_frames_counterexample:
  "ambientLive w_live (CarrierRef 0) \<and>
   Transaction drv_ok (CarrierRef 0) 49152 (biz_probe ''u2'') [PropagationRequiresNew] w_live =
     (Ret None,
      \<lparr>heap = [\<lparr>ctx = Plain 0, tx = Some tx0, parent = None\<rparr>,
               \<lparr>ctx = CarrierRef 0, tx = Some (tx0\<lparr>ConnPool := SqlTx 1\<rparr>), parent = None\<rparr>],
       oplog = [OpBegin pool0, OpBegin pool0,
                OpExec (tx0\<lparr>ConnPool := SqlTx 1, StmtContext := CarrierRef 1\<rparr>) ''u2'',
                OpCommit (tx0\<lparr>ConnPool := SqlTx 1\<rparr>)]\<rparr>) \<and>
   Transaction drv_ok (CarrierRef 0) 49152 (biz_probe ''u3'') [PropagationNotSupported] w_live =
     (Ret None,
      \<lparr>heap = [\<lparr>ctx = Plain 0, tx = Some tx0, parent = None\<rparr>],
       oplog = [OpBegin pool0, OpExec pool0 ''u3'']\<rparr>)"
  by (simp add: ambientLive_def biz_probe_def engine_defs example_defs)

text \<open>
  Claim C5, amended. On a carrier in a live transaction, a \<^verbatim>\<open>RequiresNew\<close> frame
  issues \<^verbatim>\<open>BEGIN\<close> on a pool handle bound to the context the outer carrier wraps, and
  constructs a new carrier whose \<^verbatim>\<open>ctx\<close> is the outer carrier, whose \<^verbatim>\<open>tx\<close> is the
  handle just begun and whose \<^verbatim>\<open>parent\<close> is empty; the outer carrier is left as it was.
  When \<^verbatim>\<open>Begin\<close> succeeded, the only driver calls the frame adds to those of the
  business function are \<^verbatim>\<open>COMMIT\<close> and \<^verbatim>\<open>ROLLBACK\<close> on the new handle. A
  \<^verbatim>\<open>NotSupported\<close> frame constructs no carrier and issues no driver call: it invokes
  the business function with the context the outer carrier wraps and a pool handle bound
  to it. Neither frame issues a call on the outer transaction.
\<close>

theorem suspending_frames:
  assumes outer: "lookup w a = Some t" "InTransaction t"
    and fresh: "beginFresh drv (ctx t) (CarrierRef a) w = (txdb, n, w1)"
  shows "lookup w1 n = Some \<lparr>ctx = CarrierRef a, tx = Some txdb, parent = None\<rparr> \<and>
         txdb = begin_tx drv (oplog w) (WithContext (ctx t) (origin drv)) \<and>
         oplog w1 = oplog w @ [OpBegin (WithContext (ctx t) (origin drv))] \<and>
         n \<noteq> a \<and> lookup w1 a = Some t \<and>
         (Error txdb = None \<and> ConnPool txdb = SqlTx i \<and>
          bizFn (CarrierRef n) txdb w1 = (r, w2) \<and> lookup w2 n = lookup w1 n \<longrightarrow>
            Transaction drv (CarrierRef a) fp bizFn (PropagationRequiresNew # ps) w =
              (case r of
                 Ret None \<Rightarrow>
                   (case commit_err drv (oplog w2) txdb of
                      None \<Rightarrow> (Ret None, emit (OpCommit txdb) w2)
                    | Some e \<Rightarrow>
                        (Ret (Some e), emit (OpRollback txdb) (emit (OpCommit txdb) w2)))
               | _ \<Rightarrow> (r, emit (OpRollback txdb) w2))) \<and>
         Transaction drv (CarrierRef a) fp bizFn (PropagationNotSupported # ps) w =
           bizFn (ctx t) (WithContext (ctx t) (origin drv)) w"
proof -
  have pc: "pureCtxOf w (CarrierRef a) = Some (ctx t)"
    using outer by (simp add: pureCtxOf_def)
  have n: "n = length (heap w)" and a: "a < length (heap w)"
    using fresh outer by (auto dest: beginFresh_facts simp: lookup_def split: if_splits)
  have l1: "lookup w1 n = Some \<lparr>ctx = CarrierRef a, tx = Some txdb, parent = None\<rparr>"
    using beginFresh_facts(5) [OF fresh] .
  have la: "lookup w1 a = Some t"
    using beginFresh_facts(4) [OF fresh] outer a
    by (auto simp: lookup_def nth_append split: if_splits)
  have run: "Transaction drv (CarrierRef a) fp bizFn (PropagationRequiresNew # ps) w =
      (case r of
         Ret None \<Rightarrow>
           (case commit_err drv (oplog w2) txdb of
              None \<Rightarrow> (Ret None, emit (OpCommit txdb) w2)
            | Some e \<Rightarrow> (Ret (Some e), emit (OpRollback txdb) (emit (OpCommit txdb) w2)))
       | _ \<Rightarrow> (r, emit (OpRollback txdb) w2))"
    if ok: "Error txdb = None" "ConnPool txdb = SqlTx i"
      and biz: "bizFn (CarrierRef n) txdb w1 = (r, w2)"
      and kept: "lookup w2 n = lookup w1 n"
    using rootFrame_outcome [where bizFn = bizFn and drv = drv, OF l1 _ _ ok biz kept]
      withRequiresNew_start [OF pc fresh, of bizFn]
    by (simp add: Transaction_RequiresNew)
  have ns: "Transaction drv (CarrierRef a) fp bizFn (PropagationNotSupported # ps) w =
      bizFn (ctx t) (WithContext (ctx t) (origin drv)) w"
    using pc by (simp add: Transaction_NotSupported withNotSupportedPropagation_def getPureDB_def)
  show ?thesis
    using l1 la n a run ns beginFresh_facts(1,3) [OF fresh]
    by (simp add: getPureDB_def)
qed

theorem suspending_frames_witness:
  "lookup w_live 0 = Some \<lparr>ctx = Plain 0, tx = Some tx0, parent = None\<rparr> \<and>
   InTransaction \<lparr>ctx = Plain 0, tx = Some tx0, parent = None\<rparr> \<and>
   Transaction drv_ok (CarrierRef 0) 49152 (biz_insert ''u2'' (Ret (Some ''mock error'')))
     [PropagationRequiresNew] w_live =
     (Ret (Some ''mock error''),
      \<lparr>heap = [\<lparr>ctx = Plain 0, tx = Some tx0, parent = None\<rparr>,
               \<lparr>ctx = CarrierRef 0, tx = Some (tx0\<lparr>ConnPool := SqlTx 1\<rparr>), parent = None\<rparr>],
       oplog = [OpBegin pool0, OpBegin pool0, OpExec (tx0\<lparr>ConnPool := SqlTx 1\<rparr>) ''u2'',
                OpRollback (tx0\<lparr>ConnPool := SqlTx 1\<rparr>)]\<rparr>) \<and>
   Transaction drv_ok (CarrierRef 0) 49152 (biz_insert ''u2'' (Ret (Some ''mock error'')))
     [PropagationNotSupported] w_live =
     (Ret (Some ''mock error''),
      \<lparr>heap = [\<lparr>ctx = Plain 0, tx = Some tx0, parent = None\<rparr>],
       oplog = [OpBegin pool0, OpExec pool0 ''u2'']\<rparr>)"
  using suspending_frames [where w = w_live and a = 0
      and t = "\<lparr>ctx = Plain 0, tx = Some tx0, parent = None\<rparr>" and drv = drv_ok
      and txdb = "tx0\<lparr>ConnPool := SqlTx 1\<rparr>" and n = 1 and i = 1
      and ?w1.0 = "\<lparr>heap = [\<lparr>ctx = Plain 0, tx = Some tx0, parent = None\<rparr>,
               \<lparr>ctx = CarrierRef 0, tx = Some (tx0\<lparr>ConnPool := SqlTx 1\<rparr>), parent = None\<rparr>],
               oplog = [OpBegin pool0, OpBegin pool0]\<rparr>"
      and bizFn = "biz_insert ''u2'' (Ret (Some ''mock error''))"
      and r = "Ret (Some ''mock error'')"
      and ?w2.0 = "\<lparr>heap = [\<lparr>ctx = Plain 0, tx = Some tx0, parent = None\<rparr>,
               \<lparr>ctx = CarrierRef 0, tx = Some (tx0\<lparr>ConnPool := SqlTx 1\<rparr>), parent = None\<rparr>],
               oplog = [OpBegin pool0, OpBegin pool0, OpExec (tx0\<lparr>ConnPool := SqlTx 1\<rparr>) ''u2'']\<rparr>"
      and fp = 49152 and ps = "[]"]
  by (simp add: InTransaction_def beginFresh_def getPureDB_def WithContext_def alloc_def
      emit_def lookup_def Let_def example_defs)

subsection \<open>What the engine does to existing carriers\<close>

lemma carrierKept_refl [simp]: "carrierKept t t"
  by (simp add: carrierKept_def)


lemma carriersKept_iff:
  "carriersKept w w' \<longleftrightarrow>
     length (heap w) \<le> length (heap w') \<and>
     (\<forall>i < length (heap w). carrierKept (heap w ! i) (heap w' ! i))"
  by (auto simp: carriersKept_def list_all2_conv_all_nth)

lemma carriersKept_refl [simp]: "carriersKept w w"
  by (simp add: carriersKept_iff)




lemma carriersKept_alloc: "alloc c w = (a, w') \<Longrightarrow> carriersKept w w'"
  by (auto simp: alloc_def carriersKept_iff nth_append)
















end
